theory Spec2Isabelle
  imports Main "HOL-Library.Word" "HOL-Library.Finite_Map" "HOL-Library.Monad_Syntax"
begin

section \<open>The Graylog HTTP hook for logrus (graylog-hook.go)\<close>

text \<open>
  The hook turns a log entry into a JSON envelope (\<open>Fire\<close>), puts the payload on a
  buffered channel, and a single background goroutine (\<open>fire\<close>) takes payloads off the
  channel and posts each one with a bounded retry loop (\<open>sendEntry\<close>). A
  \<open>sync.WaitGroup\<close> counts the payloads that are under way, and \<open>Flush\<close> waits on it.
\<close>

subsection \<open>Values that cross the library boundary\<close>

text \<open>
  The values of a field map (\<open>interface{}\<close> in the source): nil, booleans, integers and
  strings, and \<open>VUnsupported\<close> for the kinds that \<open>encoding/json\<close> refuses (channels,
  functions, complex numbers). Floating point and nested containers are outside the model.
  Texts are taken as well-formed UTF-8, which the library renders and reads back unchanged.
\<close>

datatype go_value = VNil | VBool bool | VInt int | VString string | VUnsupported

type_synonym fields = "(string, go_value) fmap"

text \<open>
  \<open>time.Time\<close> as an instant: nanoseconds since January 1 of year 1, 00:00:00 UTC, the
  origin that Go counts from, so that the zero value of \<open>time.Time\<close> is 0.
  \<open>time.Duration\<close> is a number of nanoseconds.
\<close>

type_synonym Time = int
type_synonym Duration = int

definition Second :: Duration where
  "Second = 1000000000"

text \<open>
  A payload is the JSON text that \<open>json.Marshal\<close> returns. The model keeps the JSON value
  that the text denotes: an object is a finite map from member names to values (JSON objects
  are unordered), and \<open>JTimestamp\<close> is the JSON string that \<open>time.Time\<close> renders
  itself as (RFC 3339), kept as the instant it stands for.
\<close>

datatype json =
    JNull
  | JBool bool
  | JNumber int
  | JString string
  | JTimestamp Time
  | JObject "(string, json) fmap"

type_synonym payload = json

datatype error = UnsupportedTypeError | HostnameError string

datatype panic = NegativeWaitGroupCounter | IndexOutOfRange

subsection \<open>logrus levels\<close>

text \<open>
  \<open>logrus.Level\<close> is a \<open>uint32\<close>. The constants and the table \<open>AllLevels\<close> are those
  that the logrus package exports (logrus.go): seven levels, from \<open>PanicLevel = 0\<close>, the most
  severe, to \<open>TraceLevel = 6\<close>.
\<close>

type_synonym Level = "32 word"

definition PanicLevel :: Level where "PanicLevel = 0"
definition FatalLevel :: Level where "FatalLevel = 1"
definition ErrorLevel :: Level where "ErrorLevel = 2"
definition WarnLevel :: Level where "WarnLevel = 3"
definition InfoLevel :: Level where "InfoLevel = 4"
definition DebugLevel :: Level where "DebugLevel = 5"
definition TraceLevel :: Level where "TraceLevel = 6"

definition AllLevels :: "Level list" where
  "AllLevels =
     [PanicLevel, FatalLevel, ErrorLevel, WarnLevel, InfoLevel, DebugLevel, TraceLevel]"

subsection \<open>The data of the hook\<close>

text \<open>
  \<open>GraylogMessage\<close>, the envelope. \<open>Level\<close> is an \<open>int32\<close>, read with \<open>sint\<close>; the
  field is called \<open>msg_Level\<close> here because the hook has a field \<open>Level\<close> too.
\<close>

record GraylogMessage =
  Version :: string
  Host :: string
  Short :: string
  Full :: string
  TimeUnix :: Time
  msg_Level :: "32 word"
  Facility :: string
  File :: string
  Line :: int
  Extra :: fields
  LogFields :: fields

text \<open>
  What \<open>Fire\<close> reads of a \<open>logrus.Entry\<close>: its field map, message and level. \<open>Time\<close> is
  the entry's own timestamp, which logrus sets when the entry is logged.
\<close>

record Entry =
  Data :: fields
  Time :: Time
  entry_Level :: Level
  Message :: string

text \<open>
  The HTTP client: the one the caller supplied, or the default one that
  \<open>NewGraylogHook\<close> builds, whose transport does not verify TLS certificates.
\<close>

datatype http_Client = SuppliedClient | DefaultClient (InsecureSkipVerify: bool)

text \<open>
  \<open>GraylogHook\<close>. The channel \<open>buf\<close> is its contents, oldest first, with its capacity
  \<open>buf_cap\<close>; the wait group \<open>wg\<close> is its counter. \<open>retries\<close> is a Go \<open>int\<close>: the
  loop over it only counts up to it, so nothing can overflow.
\<close>

record GraylogHook =
  graylogAddress :: string
  hostname :: string
  facility :: string
  extra :: fields
  retries :: int
  buf :: "payload list"
  buf_cap :: nat
  wg :: int
  httpClient :: http_Client
  Level :: Level

subsection \<open>The wait group\<close>

text \<open>
  \<open>sync.WaitGroup\<close>: \<open>Add\<close> adds a delta to the counter and panics when the counter
  becomes negative; \<open>Done\<close> is \<open>Add(-1)\<close>; \<open>Wait\<close> returns once the counter is zero
  and blocks until then.
\<close>

definition wg_Add :: "int \<Rightarrow> int \<Rightarrow> panic + int" where
  "wg_Add counter delta =
     (if counter + delta < 0 then Inl NegativeWaitGroupCounter else Inr (counter + delta))"

definition wg_Done :: "int \<Rightarrow> panic + int" where
  "wg_Done counter = wg_Add counter (- 1)"


subsection \<open>sendEntry: the retry loop\<close>

text \<open>
  What the worker does to the outside world, in order. \<open>HttpNewRequest\<close> is the
  construction of a request (method, URL, body), \<open>ClientDo\<close> the sending of it,
  \<open>Sleep\<close> a call of \<open>time.Sleep\<close>, \<open>BodyClose\<close> the deferred closing of the
  response body. \<open>Println\<close> is the line that \<open>Fire\<close> prints on standard output.
\<close>

datatype event =
    HttpNewRequest string string payload
  | ClientDo
  | Sleep Duration
  | BodyClose
  | Println fields

text \<open>
  The environment of one call of \<open>sendEntry\<close>: whether \<open>http.NewRequest\<close> returns an
  error in iteration \<open>i\<close>, and what \<open>httpClient.Do\<close> returns in iteration \<open>i\<close>:
  \<open>None\<close> for an error, \<open>Some status\<close> for a response with that status code. Every
  call of \<open>Do\<close> is taken to return.
\<close>

record http_env =
  NewRequest_err :: "int \<Rightarrow> bool"
  Do_result :: "int \<Rightarrow> nat option"

definition then_events :: "event list \<Rightarrow> event list \<times> nat option \<Rightarrow> event list \<times> nat option" where
  "then_events es r = (es @ fst r, snd r)"

text \<open>
  The \<open>for\<close> loop of \<open>sendEntry\<close>, from iteration \<open>i\<close> on: the events it causes and the
  response it ends with (\<open>None\<close> when it runs out of iterations).
\<close>

function retry_loop :: "http_env \<Rightarrow> GraylogHook \<Rightarrow> payload \<Rightarrow> int \<Rightarrow> event list \<times> nat option" where
  "retry_loop env hook messageBytes i =
     (if i < retries hook then
        (if NewRequest_err env i then
           then_events
             [HttpNewRequest ''POST'' (graylogAddress hook) messageBytes, Sleep (10 * Second)]
             (retry_loop env hook messageBytes (i + 1))
         else
           (case Do_result env i of
              None \<Rightarrow>
                then_events
                  [HttpNewRequest ''POST'' (graylogAddress hook) messageBytes, ClientDo,
                   Sleep (10 * Second)]
                  (retry_loop env hook messageBytes (i + 1))
            | Some status \<Rightarrow>
                ([HttpNewRequest ''POST'' (graylogAddress hook) messageBytes, ClientDo],
                 Some status)))
      else ([], None))"
  by pat_completeness auto
termination
  by (relation "measure (\<lambda>(env, hook, messageBytes, i). nat (retries hook - i))") auto

text \<open>
  \<open>sendEntry\<close>: the loop, then the deferred calls in reverse order of their
  registration: the body of the response is closed if there was one, and \<open>wg.Done()\<close>
  runs last.
\<close>

definition sendEntry :: "http_env \<Rightarrow> GraylogHook \<Rightarrow> payload \<Rightarrow> panic + (GraylogHook \<times> event list)" where
  "sendEntry env hook messageBytes =
     (let r = retry_loop env hook messageBytes 0;
          evs = fst r @ (case snd r of None \<Rightarrow> [] | Some status \<Rightarrow> [BodyClose])
      in case wg_Done (wg hook) of
           Inl p \<Rightarrow> Inl p
         | Inr counter \<Rightarrow> Inr (hook\<lparr>wg := counter\<rparr>, evs))"

text \<open>An attempt starts with the construction of a request.\<close>

fun is_attempt :: "event \<Rightarrow> bool" where
  "is_attempt (HttpNewRequest m u b) = True"
| "is_attempt e = False"

definition attempts :: "event list \<Rightarrow> nat" where
  "attempts evs = length (filter is_attempt evs)"

text \<open>The events of iteration \<open>i\<close> when it fails: the request, the send if it got that far, the sleep.\<close>

definition failed_attempt :: "http_env \<Rightarrow> GraylogHook \<Rightarrow> payload \<Rightarrow> int \<Rightarrow> event list" where
  "failed_attempt env hook messageBytes i =
     HttpNewRequest ''POST'' (graylogAddress hook) messageBytes
       # (if NewRequest_err env i then [] else [ClientDo]) @ [Sleep (10 * Second)]"

definition attempt_fails :: "http_env \<Rightarrow> int \<Rightarrow> bool" where
  "attempt_fails env i = (NewRequest_err env i \<or> Do_result env i = None)"

subsection \<open>NewGraylogHook\<close>

text \<open>
  What the constructor reads of the process: the result of \<open>os.Hostname()\<close> and the
  argument vector \<open>os.Args\<close>.
\<close>

record os_env =
  os_Hostname :: "error + string"
  os_Args :: "string list"

text \<open>
  \<open>path.Base\<close>: the last element of a path. Trailing slashes are dropped first; the
  empty path gives a dot, a path of slashes only gives a slash.
\<close>

definition path_Base :: "string \<Rightarrow> string" where
  "path_Base p =
     (if p = [] then ''.''
      else
        (let stripped = rev (dropWhile (\<lambda>c. c = CHR ''/'') (rev p));
             name = rev (takeWhile (\<lambda>c. c \<noteq> CHR ''/'') (rev stripped))
         in if name = [] then ''/'' else name))"

text \<open>
  \<open>NewGraylogHook\<close>. \<open>BufSize\<close> is the package variable, read here. The client is
  \<open>None\<close> for \<open>nil\<close>. Indexing an empty \<open>os.Args\<close> panics. The goroutine that the
  constructor starts is the worker of the running system below.
\<close>

definition NewGraylogHook ::
  "os_env \<Rightarrow> nat \<Rightarrow> string \<Rightarrow> int \<Rightarrow> fields \<Rightarrow> http_Client option \<Rightarrow> panic + (error + GraylogHook)" where
  "NewGraylogHook os BufSize address retries_arg extra_arg client =
     (case os_Hostname os of
        Inl err \<Rightarrow> Inr (Inl err)
      | Inr host \<Rightarrow>
          (case os_Args os of
             [] \<Rightarrow> Inl IndexOutOfRange
           | arg0 # args \<Rightarrow>
               Inr (Inr \<lparr>graylogAddress = address,
                         hostname = host,
                         facility = path_Base arg0,
                         extra = extra_arg,
                         retries = retries_arg,
                         buf = [],
                         buf_cap = BufSize,
                         wg = 0,
                         httpClient = (case client of None \<Rightarrow> DefaultClient True | Some c \<Rightarrow> c),
                         Level = DebugLevel\<rparr>)))"

subsection \<open>Levels\<close>

text \<open>
  The loop of \<open>Levels\<close> over a table of levels, with the slice it appends to.
  \<open>logrus.AllLevels\<close> is a package variable of logrus, read by each call of \<open>Levels\<close>:
  the model takes its value as the argument \<open>all_levels\<close>, and \<open>AllLevels\<close> above is
  the value that logrus gives it.
\<close>

fun Levels_loop :: "Level list \<Rightarrow> Level \<Rightarrow> Level list \<Rightarrow> Level list" where
  "Levels_loop [] threshold levels = levels"
| "Levels_loop (level # rest) threshold levels =
     Levels_loop rest threshold (if level \<le> threshold then levels @ [level] else levels)"

definition Levels :: "Level list \<Rightarrow> GraylogHook \<Rightarrow> Level list" where
  "Levels all_levels hook = Levels_loop all_levels (Level hook) []"

subsection \<open>The envelope and its JSON form\<close>

text \<open>\<open>setLevel\<close>: the conversion \<open>int32(logrusLevel)\<close> keeps the 32 bits.\<close>

definition setLevel :: "Level \<Rightarrow> 32 word" where
  "setLevel logrusLevel = ucast logrusLevel"

text \<open>
  The envelope that \<open>Fire\<close> builds. \<open>now\<close> is what \<open>time.Now()\<close> returns at that
  moment. \<open>Full\<close>, \<open>File\<close> and \<open>Line\<close> are not set and keep their zero values.
\<close>

definition grMessage :: "GraylogHook \<Rightarrow> Entry \<Rightarrow> Time \<Rightarrow> GraylogMessage" where
  "grMessage hook entry now =
     \<lparr>Version = ''1.0'',
      Host = hostname hook,
      Short = Message entry,
      Full = [],
      TimeUnix = now,
      msg_Level = setLevel (entry_Level entry),
      Facility = facility hook,
      File = [],
      Line = 0,
      Extra = extra hook,
      LogFields = Data entry\<rparr>"

text \<open>
  \<open>json.Marshal\<close> on a \<open>GraylogMessage\<close>, as the package \<open>encoding/json\<close> documents
  it for the struct tags of the source. A value of a field map becomes a JSON value, or the
  call fails with an error for a value of an unsupported kind. (The library also refuses a
  \<open>time.Time\<close> whose year is outside 0 to 9999; that error is not modelled.)
\<close>

fun json_value :: "go_value \<Rightarrow> error + json" where
  "json_value VNil = Inr JNull"
| "json_value (VBool b) = Inr (JBool b)"
| "json_value (VInt n) = Inr (JNumber n)"
| "json_value (VString s) = Inr (JString s)"
| "json_value VUnsupported = Inl UnsupportedTypeError"

definition marshal_map :: "fields \<Rightarrow> error + json" where
  "marshal_map m =
     (if fmpred (\<lambda>k v. isl (json_value v) = False) m
      then Inr (JObject (fmmap (\<lambda>v. projr (json_value v)) m))
      else Inl UnsupportedTypeError)"

text \<open>
  The option \<open>omitempty\<close> leaves a member out when the field is empty: a string or a map
  of length 0, a number 0. A struct is never empty in this sense, so the member
  \<open>timestamp\<close>, whose field is a \<open>time.Time\<close>, is always written.
\<close>

definition omitempty :: "bool \<Rightarrow> string \<times> json \<Rightarrow> (string \<times> json) list" where
  "omitempty is_empty member = (if is_empty then [] else [member])"

definition json_Marshal :: "GraylogMessage \<Rightarrow> error + payload" where
  "json_Marshal g =
     (case marshal_map (Extra g) of
        Inl err \<Rightarrow> Inl err
      | Inr extra_json \<Rightarrow>
          (case marshal_map (LogFields g) of
             Inl err \<Rightarrow> Inl err
           | Inr log_fields_json \<Rightarrow>
               Inr (JObject (fmap_of_list
                 (omitempty (Version g = []) (''version'', JString (Version g))
                  @ omitempty (Host g = []) (''host'', JString (Host g))
                  @ omitempty (Short g = []) (''short_message'', JString (Short g))
                  @ omitempty (Full g = []) (''full_message'', JString (Full g))
                  @ [(''timestamp'', JTimestamp (TimeUnix g))]
                  @ omitempty (msg_Level g = 0) (''level'', JNumber (sint (msg_Level g)))
                  @ omitempty (Facility g = []) (''facility'', JString (Facility g))
                  @ omitempty (File g = []) (''file'', JString (File g))
                  @ omitempty (Line g = 0) (''line'', JNumber (Line g))
                  @ omitempty (Extra g = fmempty) (''extra'', extra_json)
                  @ omitempty (LogFields g = fmempty) (''log_fields'', log_fields_json))))))"

subsection \<open>Fire and Flush\<close>

text \<open>
  A send on the channel: the payload goes to the end of the buffer when there is room, and
  the sender blocks (\<open>None\<close>) when there is none.
\<close>

definition chan_send :: "GraylogHook \<Rightarrow> payload \<Rightarrow> GraylogHook option" where
  "chan_send hook messageBytes =
     (if length (buf hook) < buf_cap hook then Some (hook\<lparr>buf := buf hook @ [messageBytes]\<rparr>)
      else None)"

text \<open>
  How a call of \<open>Fire\<close> ends when it runs alone: it returns \<open>nil\<close> or an error, or it
  stays blocked in the send on a full channel, or it panics.
\<close>

datatype fire_result = Returned "error option" | BlockedOnSend payload | Panicked panic

definition Fire :: "GraylogHook \<Rightarrow> Entry \<Rightarrow> Time \<Rightarrow> GraylogHook \<times> event list \<times> fire_result" where
  "Fire hook entry now =
     (case json_Marshal (grMessage hook entry now) of
        Inl err \<Rightarrow> (hook, [Println (Data entry)], Returned (Some err))
      | Inr messageBytes \<Rightarrow>
          (case wg_Add (wg hook) 1 of
             Inl p \<Rightarrow> (hook, [Println (Data entry)], Panicked p)
           | Inr counter \<Rightarrow>
               (case chan_send (hook\<lparr>wg := counter\<rparr>) messageBytes of
                  None \<Rightarrow> (hook\<lparr>wg := counter\<rparr>, [Println (Data entry)], BlockedOnSend messageBytes)
                | Some hook' \<Rightarrow> (hook', [Println (Data entry)], Returned None))))"


subsection \<open>Reading a payload\<close>












subsection \<open>The running hook: callers of Fire and the worker\<close>






subsection \<open>Sample values\<close>

text \<open>
  A hook as \<open>NewGraylogHook\<close> builds it, with retry count \<open>R\<close>, at a moment when its
  channel is empty and its wait group counts \<open>c\<close>; an environment in which every send
  fails, and one in which only the send of iteration \<open>k\<close> gets a response.
\<close>

definition hook_with :: "int \<Rightarrow> int \<Rightarrow> GraylogHook" where
  "hook_with R c =
     \<lparr>graylogAddress = ''http://graylog:12201/gelf'', hostname = ''host'', facility = ''app'',
      extra = fmempty, retries = R, buf = [], buf_cap = 8192, wg = c,
      httpClient = DefaultClient True, Level = DebugLevel\<rparr>"

definition always_failing :: http_env where
  "always_failing = \<lparr>NewRequest_err = (\<lambda>i. False), Do_result = (\<lambda>i. None)\<rparr>"

definition responds_at :: "int \<Rightarrow> nat \<Rightarrow> http_env" where
  "responds_at k status =
     \<lparr>NewRequest_err = (\<lambda>i. False), Do_result = (\<lambda>i. if i = k then Some status else None)\<rparr>"

definition sample_os :: os_env where
  "sample_os = \<lparr>os_Hostname = Inr ''host'', os_Args = [''/usr/local/bin/app'', ''-v'']\<rparr>"



definition unserializable_entry :: Entry where
  "unserializable_entry = \<lparr>Data = fmupd ''done'' VUnsupported fmempty, Time = 1,
     entry_Level = InfoLevel, Message = ''started''\<rparr>"




section \<open>Properties\<close>

subsection \<open>The retry loop\<close>

declare retry_loop.simps [simp del]

lemma retry_loop_all_fail:
  "(\<And>j. i \<le> j \<Longrightarrow> j < retries hook \<Longrightarrow> attempt_fails env j) \<Longrightarrow>
   retry_loop env hook m i = (concat (map (failed_attempt env hook m) [i..retries hook - 1]), None)"
proof (induction env hook m i rule: retry_loop.induct)
  case (1 env hook m i)
  show ?case
  proof (cases "i < retries hook")
    case False
    then show ?thesis by (simp add: retry_loop.simps [of env hook m i])
  next
    case True
    then have f: "attempt_fails env i" using "1.prems" by simp
    have ups: "[i..retries hook - 1] = i # [i + 1..retries hook - 1]"
      using True by (simp add: upto_rec1)
    show ?thesis
    proof (cases "NewRequest_err env i")
      case nr: True
      have "retry_loop env hook m (i + 1) =
        (concat (map (failed_attempt env hook m) [i + 1..retries hook - 1]), None)"
        using "1.IH"(1) [OF True nr] "1.prems" by simp
      then show ?thesis using True nr
        by (simp add: retry_loop.simps [of env hook m i] ups then_events_def
            failed_attempt_def [of env hook m i])
    next
      case nr: False
      then have d: "Do_result env i = None" using f by (simp add: attempt_fails_def)
      have "retry_loop env hook m (i + 1) =
        (concat (map (failed_attempt env hook m) [i + 1..retries hook - 1]), None)"
        using "1.IH"(2) [OF True nr d] "1.prems" by simp
      then show ?thesis using True nr d
        by (simp add: retry_loop.simps [of env hook m i] ups then_events_def
            failed_attempt_def [of env hook m i])
    qed
  qed
qed

lemma retry_loop_first_success:
  "i \<le> k \<Longrightarrow> k < retries hook \<Longrightarrow>
   (\<And>j. i \<le> j \<Longrightarrow> j < k \<Longrightarrow> attempt_fails env j) \<Longrightarrow>
   \<not> NewRequest_err env k \<Longrightarrow> Do_result env k = Some status \<Longrightarrow>
   retry_loop env hook m i =
     (concat (map (failed_attempt env hook m) [i..k - 1])
        @ [HttpNewRequest ''POST'' (graylogAddress hook) m, ClientDo], Some status)"
proof (induction env hook m i rule: retry_loop.induct)
  case (1 env hook m i)
  have lt: "i < retries hook" using "1.prems" by simp
  show ?case
  proof (cases "i = k")
    case True
    then show ?thesis using "1.prems" lt
      by (simp add: retry_loop.simps [of env hook m k])
  next
    case False
    then have ik: "i < k" using "1.prems" by simp
    then have f: "attempt_fails env i" using "1.prems" by simp
    have ups: "[i..k - 1] = i # [i + 1..k - 1]"
      using ik by (simp add: upto_rec1)
    show ?thesis
    proof (cases "NewRequest_err env i")
      case nr: True
      have "retry_loop env hook m (i + 1) =
        (concat (map (failed_attempt env hook m) [i + 1..k - 1])
          @ [HttpNewRequest ''POST'' (graylogAddress hook) m, ClientDo], Some status)"
        using "1.IH"(1) [OF lt nr] "1.prems" ik by simp
      then show ?thesis using lt nr
        by (simp add: retry_loop.simps [of env hook m i] ups then_events_def
            failed_attempt_def [of env hook m i])
    next
      case nr: False
      then have d: "Do_result env i = None" using f by (simp add: attempt_fails_def)
      have "retry_loop env hook m (i + 1) =
        (concat (map (failed_attempt env hook m) [i + 1..k - 1])
          @ [HttpNewRequest ''POST'' (graylogAddress hook) m, ClientDo], Some status)"
        using "1.IH"(2) [OF lt nr d] "1.prems" ik by simp
      then show ?thesis using lt nr d
        by (simp add: retry_loop.simps [of env hook m i] ups then_events_def
            failed_attempt_def [of env hook m i])
    qed
  qed
qed

lemma attempts_failed:
  "attempts (concat (map (failed_attempt env hook m) is)) = length is"
  by (induction "is") (simp_all add: attempts_def failed_attempt_def)

lemma attempts_append: "attempts (xs @ ys) = attempts xs + attempts ys"
  by (simp add: attempts_def)

text \<open>
  C1: with a retry count \<open>R > 0\<close> and an environment in which every iteration fails (the
  request cannot be built, or the send returns an error), \<open>sendEntry\<close> makes exactly \<open>R\<close>
  attempts, iterations \<open>0\<close> to \<open>R - 1\<close>; each one is followed by a sleep of 10 seconds, so
  consecutive attempts are 10 seconds apart. The call then returns: nothing is put back on
  the channel, and the counter of the wait group is one less. The counter is positive when
  the worker runs \<open>sendEntry\<close>, because \<open>Fire\<close> has counted the payload.
\<close>

theorem sendEntry_always_failing:
  assumes "0 < retries hook"
    and "\<forall>i. 0 \<le> i \<longrightarrow> i < retries hook \<longrightarrow> attempt_fails env i"
    and "0 < wg hook"
  shows "sendEntry env hook messageBytes =
           Inr (hook\<lparr>wg := wg hook - 1\<rparr>,
                concat (map (failed_attempt env hook messageBytes) [0..retries hook - 1]))
         \<and> attempts (concat (map (failed_attempt env hook messageBytes) [0..retries hook - 1]))
             = nat (retries hook)"
proof -
  have loop: "retry_loop env hook messageBytes 0 =
      (concat (map (failed_attempt env hook messageBytes) [0..retries hook - 1]), None)"
    using assms(2) by (intro retry_loop_all_fail) simp
  have "sendEntry env hook messageBytes =
           Inr (hook\<lparr>wg := wg hook - 1\<rparr>,
                concat (map (failed_attempt env hook messageBytes) [0..retries hook - 1]))"
    using assms(3) by (simp add: sendEntry_def loop wg_Done_def wg_Add_def)
  moreover have "attempts (concat (map (failed_attempt env hook messageBytes) [0..retries hook - 1]))
             = nat (retries hook)"
    using assms(1) by (simp add: attempts_failed)
  ultimately show ?thesis by simp
qed

theorem sendEntry_always_failing_witness:
  "0 < retries (hook_with 2 1) \<and> attempt_fails always_failing 0 \<and> attempt_fails always_failing 1
   \<and> 0 < wg (hook_with 2 1)
   \<and> sendEntry always_failing (hook_with 2 1) JNull =
     Inr (hook_with 2 0,
          [HttpNewRequest ''POST'' ''http://graylog:12201/gelf'' JNull, ClientDo,
           Sleep 10000000000,
           HttpNewRequest ''POST'' ''http://graylog:12201/gelf'' JNull, ClientDo,
           Sleep 10000000000])"
proof -
  have r: "0 < retries (hook_with 2 1)" by (simp add: hook_with_def)
  have f: "\<forall>i. 0 \<le> i \<longrightarrow> i < retries (hook_with 2 1) \<longrightarrow> attempt_fails always_failing i"
    by (simp add: attempt_fails_def always_failing_def)
  have c: "0 < wg (hook_with 2 1)" by (simp add: hook_with_def)
  show ?thesis
    using sendEntry_always_failing [OF r f c, of JNull]
    by (simp add: hook_with_def failed_attempt_def always_failing_def attempt_fails_def
        Second_def upto_rec1)
qed

text \<open>
  C3: with a retry count of 0 the loop body never runs: \<open>sendEntry\<close> builds no request and
  sends nothing, whatever the environment would answer, and returns with the counter of the
  wait group one less.
\<close>

theorem sendEntry_zero_retries:
  assumes "retries hook = 0" and "0 < wg hook"
  shows "sendEntry env hook messageBytes = Inr (hook\<lparr>wg := wg hook - 1\<rparr>, [])"
  using assms
  by (simp add: sendEntry_def retry_loop.simps [of env hook messageBytes 0] wg_Done_def wg_Add_def)

theorem sendEntry_zero_retries_witness:
  "retries (hook_with 0 1) = 0 \<and> 0 < wg (hook_with 0 1)
   \<and> sendEntry (responds_at 0 200) (hook_with 0 1) JNull = Inr (hook_with 0 0, [])"
proof -
  have r: "retries (hook_with 0 1) = 0" by (simp add: hook_with_def)
  have c: "0 < wg (hook_with 0 1)" by (simp add: hook_with_def)
  show ?thesis
    using sendEntry_zero_retries [OF r c, of "responds_at 0 200" JNull]
    by (simp add: hook_with_def)
qed

text \<open>
  C4: let iteration \<open>k\<close> be the first one in which the request is built and the send
  returns a response, of any status code. Then \<open>sendEntry\<close> makes the \<open>k\<close> failed attempts
  before it, each followed by its sleep, then attempt \<open>k\<close>, and nothing after it but the
  closing of the response body: \<open>k + 1\<close> attempts in all, however large the retry count is.
\<close>

theorem sendEntry_stops_at_first_response:
  assumes "0 \<le> k" and "k < retries hook"
    and "\<forall>i. 0 \<le> i \<longrightarrow> i < k \<longrightarrow> attempt_fails env i"
    and "\<not> NewRequest_err env k" and "Do_result env k = Some status"
    and "0 < wg hook"
  shows "sendEntry env hook messageBytes =
           Inr (hook\<lparr>wg := wg hook - 1\<rparr>,
                concat (map (failed_attempt env hook messageBytes) [0..k - 1])
                  @ [HttpNewRequest ''POST'' (graylogAddress hook) messageBytes, ClientDo, BodyClose])
         \<and> attempts (concat (map (failed_attempt env hook messageBytes) [0..k - 1])
                  @ [HttpNewRequest ''POST'' (graylogAddress hook) messageBytes, ClientDo, BodyClose])
             = nat k + 1"
proof -
  have loop: "retry_loop env hook messageBytes 0 =
      (concat (map (failed_attempt env hook messageBytes) [0..k - 1])
         @ [HttpNewRequest ''POST'' (graylogAddress hook) messageBytes, ClientDo], Some status)"
    using assms by (intro retry_loop_first_success) simp_all
  have "sendEntry env hook messageBytes =
           Inr (hook\<lparr>wg := wg hook - 1\<rparr>,
                concat (map (failed_attempt env hook messageBytes) [0..k - 1])
                  @ [HttpNewRequest ''POST'' (graylogAddress hook) messageBytes, ClientDo, BodyClose])"
    using assms(6) by (simp add: sendEntry_def loop wg_Done_def wg_Add_def)
  moreover have "attempts (concat (map (failed_attempt env hook messageBytes) [0..k - 1])
                  @ [HttpNewRequest ''POST'' (graylogAddress hook) messageBytes, ClientDo, BodyClose])
             = nat k + 1"
    using assms(1) by (simp add: attempts_append attempts_failed) (simp add: attempts_def)
  ultimately show ?thesis by simp
qed

theorem sendEntry_stops_at_first_response_witness:
  "1 < retries (hook_with 5 1) \<and> attempt_fails (responds_at 1 500) 0
   \<and> \<not> NewRequest_err (responds_at 1 500) 1 \<and> Do_result (responds_at 1 500) 1 = Some 500
   \<and> 0 < wg (hook_with 5 1)
   \<and> sendEntry (responds_at 1 500) (hook_with 5 1) JNull =
     Inr (hook_with 5 0,
          [HttpNewRequest ''POST'' ''http://graylog:12201/gelf'' JNull, ClientDo,
           Sleep 10000000000,
           HttpNewRequest ''POST'' ''http://graylog:12201/gelf'' JNull, ClientDo, BodyClose])"
proof -
  have k: "(0::int) \<le> 1" by simp
  have r: "1 < retries (hook_with 5 1)" by (simp add: hook_with_def)
  have f: "\<forall>i. 0 \<le> i \<longrightarrow> i < 1 \<longrightarrow> attempt_fails (responds_at 1 500) i"
    by (simp add: attempt_fails_def responds_at_def)
  have n: "\<not> NewRequest_err (responds_at 1 500) 1" by (simp add: responds_at_def)
  have d: "Do_result (responds_at 1 500) 1 = Some 500" by (simp add: responds_at_def)
  have c: "0 < wg (hook_with 5 1)" by (simp add: hook_with_def)
  show ?thesis
    using sendEntry_stops_at_first_response [OF k r f n d c, of JNull]
    by (simp add: hook_with_def failed_attempt_def responds_at_def attempt_fails_def
        Second_def upto_rec1)
qed

subsection \<open>Levels and the constructor\<close>

lemma Levels_loop_filter:
  "Levels_loop table threshold levels = levels @ filter (\<lambda>level. level \<le> threshold) table"
  by (induction table arbitrary: levels) simp_all

lemma distinct_AllLevels: "distinct AllLevels"
  by (simp add: AllLevels_def PanicLevel_def FatalLevel_def ErrorLevel_def WarnLevel_def
      InfoLevel_def DebugLevel_def TraceLevel_def)

text \<open>
  C6: for a hook whose threshold is \<open>Level hook\<close>, \<open>Levels\<close> returns exactly the levels
  of the table whose numeric value is at most the threshold (a smaller value is a more
  severe level): as a set, and also as a list, in the order of the table. With the table
  of logrus these are seven distinct levels at most.
\<close>

theorem Levels_exact:
  "set (Levels all_levels hook)
     = {level. level \<in> set all_levels \<and> unat level \<le> unat (Level hook)}
   \<and> Levels all_levels hook = filter (\<lambda>level. unat level \<le> unat (Level hook)) all_levels
   \<and> distinct (Levels AllLevels hook)"
proof -
  have f: "Levels all_levels hook = filter (\<lambda>level. unat level \<le> unat (Level hook)) all_levels"
    for all_levels
    by (simp add: Levels_def Levels_loop_filter word_le_nat_alt)
  have "distinct (Levels AllLevels hook)"
    unfolding f using distinct_AllLevels by (rule distinct_filter)
  then show ?thesis using f by auto
qed

lemma NewGraylogHook_Level:
  "NewGraylogHook os BufSize address r x client = Inr (Inr hook) \<Longrightarrow> Level hook = DebugLevel"
  by (auto simp add: NewGraylogHook_def split: sum.splits list.splits)


lemma Levels_Debug:
  "Level hook = DebugLevel \<Longrightarrow>
   Levels AllLevels hook = [PanicLevel, FatalLevel, ErrorLevel, WarnLevel, InfoLevel, DebugLevel]"
  by (simp add: Levels_def AllLevels_def PanicLevel_def FatalLevel_def ErrorLevel_def
      WarnLevel_def InfoLevel_def DebugLevel_def TraceLevel_def)

lemma NewGraylogHook_sample:
  "NewGraylogHook sample_os 8192 ''http://graylog:12201/gelf'' 3 fmempty None
     = Inr (Inr (hook_with 3 0))"
  by (simp add: NewGraylogHook_def sample_os_def hook_with_def path_Base_def)

text \<open>
  C10, as the code has it: a hook that \<open>NewGraylogHook\<close> returns has the threshold
  \<open>DebugLevel\<close>, and \<open>Levels\<close> on it, with the table of logrus, returns the six levels
  from \<open>PanicLevel\<close> to \<open>DebugLevel\<close>: every logrus level but \<open>TraceLevel\<close>, which
  lies beyond the threshold.
\<close>

theorem NewGraylogHook_Levels:
  assumes "NewGraylogHook os BufSize address r x client = Inr (Inr hook)"
  shows "Level hook = DebugLevel
    \<and> Levels AllLevels hook
         = [PanicLevel, FatalLevel, ErrorLevel, WarnLevel, InfoLevel, DebugLevel]
    \<and> set (Levels AllLevels hook) = set AllLevels - {TraceLevel}"
proof -
  have l: "Level hook = DebugLevel" using assms by (rule NewGraylogHook_Level)
  have ls: "Levels AllLevels hook
      = [PanicLevel, FatalLevel, ErrorLevel, WarnLevel, InfoLevel, DebugLevel]"
    using l by (rule Levels_Debug)
  have "set (Levels AllLevels hook) = set AllLevels - {TraceLevel}"
    unfolding ls
    by (auto simp add: AllLevels_def PanicLevel_def FatalLevel_def ErrorLevel_def
      WarnLevel_def InfoLevel_def DebugLevel_def TraceLevel_def)
  with l ls show ?thesis by simp
qed

theorem NewGraylogHook_Levels_witness:
  "NewGraylogHook sample_os 8192 ''http://graylog:12201/gelf'' 3 fmempty None
     = Inr (Inr (hook_with 3 0))
   \<and> Levels AllLevels (hook_with 3 0) = [0, 1, 2, 3, 4, 5]"
  using NewGraylogHook_Levels [OF NewGraylogHook_sample] NewGraylogHook_sample
  by (simp add: PanicLevel_def FatalLevel_def ErrorLevel_def
      WarnLevel_def InfoLevel_def DebugLevel_def)

text \<open>
  C10 as stated fails: \<open>TraceLevel\<close> is a logrus level, and \<open>Levels\<close> on a freshly
  constructed hook, with the table of logrus, does not return it.
\<close>

theorem NewGraylogHook_Levels_counterexample:
  "NewGraylogHook sample_os 8192 ''http://graylog:12201/gelf'' 3 fmempty None
     = Inr (Inr (hook_with 3 0))
   \<and> TraceLevel \<in> set AllLevels
   \<and> TraceLevel \<notin> set (Levels AllLevels (hook_with 3 0))"
  by (simp add: NewGraylogHook_sample Levels_def hook_with_def AllLevels_def PanicLevel_def
      FatalLevel_def ErrorLevel_def WarnLevel_def InfoLevel_def DebugLevel_def TraceLevel_def)

subsection \<open>The envelope on the wire\<close>










subsection \<open>Fire\<close>


lemma marshal_unserializable:
  "json_Marshal (grMessage (hook_with 3 0) unserializable_entry 5) = Inl UnsupportedTypeError"
proof -
  have "\<not> fmpred (\<lambda>k v. isl (json_value v) = False) (fmupd ''done'' VUnsupported fmempty)"
    by auto
  then show ?thesis
    by (simp add: json_Marshal_def grMessage_def hook_with_def unserializable_entry_def
        marshal_map_def)
qed




lemma Fire_ignores_entry_Time:
  "Fire hook (entry\<lparr>Time := t\<rparr>) now = Fire hook entry now"
proof -
  have "grMessage hook (entry\<lparr>Time := t\<rparr>) now = grMessage hook entry now"
    by (simp add: grMessage_def)
  then show ?thesis by (simp add: Fire_def split: sum.splits option.splits)
qed

text \<open>
  C7: when the envelope of a record does not serialize, \<open>Fire\<close> returns that error and
  leaves the hook as it was: nothing is sent on the channel and the counter of the wait
  group is not touched. (The line on standard output has been printed by then.)
\<close>

theorem Fire_serialization_error:
  assumes "json_Marshal (grMessage hook entry now) = Inl err"
  shows "Fire hook entry now = (hook, [Println (Data entry)], Returned (Some err))"
  using assms by (simp add: Fire_def)

theorem Fire_serialization_error_witness:
  "json_Marshal (grMessage (hook_with 3 0) unserializable_entry 5) = Inl UnsupportedTypeError
   \<and> Fire (hook_with 3 0) unserializable_entry 5 =
       (hook_with 3 0, [Println (Data unserializable_entry)], Returned (Some UnsupportedTypeError))
   \<and> buf (hook_with 3 0) = [] \<and> wg (hook_with 3 0) = 0"
  using Fire_serialization_error [OF marshal_unserializable] marshal_unserializable
  by (simp add: hook_with_def)



subsection \<open>Reading the payload back\<close>








subsection \<open>The running hook\<close>













end
